theory Spec2Isabelle
  imports Complex_Main
begin

section \<open>Experiment configuration of the digraph transformer (config.py)\<close>

text \<open>
  The module holds a static table of datasets and the function \<open>get_config\<close>, which
  builds the default configuration, overlays named presets, resolves the dataset and
  derives step counts and learning-rate bounds.

  Conventions of the embedding:
  \<^item> Python \<open>int\<close> is \<open>int\<close>; Python \<open>float\<close> is \<open>rat\<close>, so float arithmetic is
    taken as exact rational arithmetic (rounding, infinities and NaN are not modelled);
  \<^item> a \<open>dict(...)\<close> literal with fixed keys is a record with one field per key; a field
    whose name is already used by another record or by a HOL constant carries a suffix;
  \<^item> \<open>Optional[t]\<close> and \<open>config_dict.placeholder(t)\<close> are \<open>t option\<close>, with \<open>None\<close>
    for Python's \<open>None\<close> or an unfilled placeholder;
  \<^item> a key that is added to a dictionary only later (\<open>restore_path\<close>, \<open>dataset\<close>) is an
    option around the field's type, \<open>None\<close> meaning that the key is absent;
  \<^item> a raised exception is the left injection of a sum.
\<close>

subsection \<open>Errors\<close>

datatype error = KeyError | ZeroDivisionError

subsection \<open>The dataset record and the registry\<close>

record Dataset =
  name :: string
  path :: string
  sequence_length :: int
  num_classes :: int
  ast_depth :: int
  num_nodetypes :: int
  num_nodeattributes :: int
  edge_df_types :: "int option"
  edge_ast_types :: "int option"
  num_train_samples :: int
  idx2vocab :: "(int \<rightharpoonup> string) option"
  vocab2idx :: "(string \<rightharpoonup> int) option"

definition OGBG_CODE2 :: Dataset where
  "OGBG_CODE2 = \<lparr>name = ''ogbg-code2'', path = ''ogbg-code2'', sequence_length = 5,
     num_classes = 5002, ast_depth = 20, num_nodetypes = 98, num_nodeattributes = 10030,
     edge_df_types = None, edge_ast_types = None, num_train_samples = 407976,
     idx2vocab = None, vocab2idx = None\<rparr>"

definition OGBG_CODE2_NOREV :: Dataset where
  "OGBG_CODE2_NOREV = \<lparr>name = ''ogbg-code2-norev'', path = ''ogbg-code2-norev'',
     sequence_length = 5, num_classes = 5002, ast_depth = 20, num_nodetypes = 98,
     num_nodeattributes = 10030, edge_df_types = None, edge_ast_types = None,
     num_train_samples = 407976, idx2vocab = None, vocab2idx = None\<rparr>"

definition OGBG_CODE2_NOREV_DF :: Dataset where
  "OGBG_CODE2_NOREV_DF = \<lparr>name = ''ogbg-code2-norev-df'', path = ''ogbg-code2-norev-df'',
     sequence_length = 5, num_classes = 5002, ast_depth = 20, num_nodetypes = 113,
     num_nodeattributes = 11973, edge_df_types = Some 12, edge_ast_types = Some 51,
     num_train_samples = 407976, idx2vocab = None, vocab2idx = None\<rparr>"

definition SORTING_NETWORKS :: Dataset where
  "SORTING_NETWORKS = \<lparr>name = ''sn'', path = ''7to11_12_13to16'', sequence_length = 1,
     num_classes = 2, ast_depth = - 1, num_nodetypes = - 1, num_nodeattributes = 13,
     edge_df_types = None, edge_ast_types = None, num_train_samples = 800000,
     idx2vocab = None, vocab2idx = None\<rparr>"

text \<open>The dictionary literal \<open>datasets\<close>, as the list of its items and the lookup in it.\<close>

definition datasets_items :: "(string \<times> Dataset) list" where
  "datasets_items =
     [(''ogbg-code2'', OGBG_CODE2),
      (''ogbg-code2-norev'', OGBG_CODE2_NOREV),
      (''ogbg-code2-norev-df'', OGBG_CODE2_NOREV_DF),
      (''sn-7to11-12-13to16'', SORTING_NETWORKS)]"

definition datasets :: "string \<rightharpoonup> Dataset" where
  "datasets = map_of datasets_items"

text \<open>\<open>datasets[k]\<close>: a missing key raises \<open>KeyError\<close>.\<close>

definition datasets_getitem :: "string \<Rightarrow> error + Dataset" where
  "datasets_getitem k = (case datasets k of None \<Rightarrow> Inl KeyError | Some d \<Rightarrow> Inr d)"

subsection \<open>The configuration record\<close>

record loss_kwargs =
  only_punish_first_end_of_sequence_token :: bool

record posenc_config =
  posenc_type :: string
  exclude_canonical :: bool
  relative_positional_encodings :: bool
  do_also_reverse :: bool
  ppr_restart_probaility :: rat
  random_walk_steps :: int
  top_k_eigenvectors :: int
  excl_k_eigenvectors :: int
  concatenate_eigenvalues :: bool
  maglap_q :: rat
  maglap_q_absolute :: bool
  maglap_symmetric_norm :: bool
  maglap_transformer :: bool
  maglap_use_signnet :: bool
  maglap_use_gnn :: bool
  maglap_norm_comps_sep :: bool
  maglap_l2_norm :: bool
  maglap_dropout_p :: rat
  maglap_sign_rotate :: bool

record dataset_config =
  do_bucket_by_size :: bool
  exclude_control_flow_edges :: bool
  exclude_next_syntax_edges :: bool

record gnn_config =
  gnn_type :: string
  k_hop :: int
  mlp_layers :: int
  se :: string
  tightening_factor :: int
  use_edge_attr :: bool
  bidirectional :: bool
  residual :: bool
  concat_gnn :: bool

record attention_config =
  num_heads :: int
  dense_widening_factor :: int
  with_bias :: bool
  dropout_p :: rat
  with_attn_dropout :: bool
  re_im_separate_projection :: bool
  with_posenc_residual :: bool

record encoder_config =
  attribute_dropout :: rat

record model_config =
  model_type :: string
  num_layers :: int
  d_model :: int
  global_readout :: string
  activation :: string
  batch_norm :: bool
  deg_sensitive_residual :: bool
  attention_config :: attention_config
  encoder_config :: encoder_config
  loss_kwargs :: loss_kwargs
  posenc_config :: posenc_config
  with_pre_gnn :: bool
  gnn_config :: gnn_config

record evaluation_config =
  eval_also_on_test :: bool
  batch_size_eval :: int
  max_number_of_instances :: int
  unk_offset :: rat
  eos_offset :: rat

record optimizer_kwargs =
  b1 :: rat
  b2 :: rat
  weight_decay :: rat

record lr_schedule =
  warmup_steps :: int
  decay_steps :: int
  init_value :: rat
  peak_value :: rat
  end_value :: rat

record agc_kwargs =
  clipping :: rat

record optimizer =
  name_opt :: string
  optimizer_kwargs :: optimizer_kwargs
  lr_schedule :: lr_schedule
  use_agc :: bool
  agc_kwargs :: agc_kwargs

record training =
  batch_size :: int

text \<open>
  \<open>config.experiment_kwargs.config\<close>. The key \<open>dataset\<close> does not exist in the default
  configuration; \<open>get_config\<close> adds it and leaves \<open>dataset_name\<close> in place.
\<close>

record experiment_config =
  data_root :: "string option"
  debug :: bool
  dataset_name :: string
  pmap_axis :: string
  optimizer :: optimizer
  model :: model_config
  dataset_config :: dataset_config
  training :: training
  evaluation :: evaluation_config
  dataset :: "Dataset option"

record experiment_kwargs =
  config :: experiment_config

text \<open>
  The top-level configuration. \<open>base_config.get_base_config()\<close> belongs to the training
  framework; the keys of its result that this module never assigns are kept, untouched,
  in the field \<open>base\<close> of an arbitrary type. The key \<open>restore_path\<close> is absent until
  \<open>get_config\<close> sets it to a string placeholder.
\<close>

record 'b jaxline_config =
  base :: 'b
  warmup_epochs :: int
  epochs :: int
  training_steps :: int
  log_train_data_interval :: int
  log_tensors_interval :: int
  save_checkpoint_interval :: int
  save_initial_train_checkpoint :: bool
  checkpoint_dir :: string
  eval_specific_checkpoint_dir :: string
  best_model_eval_metric :: string
  best_model_eval_metric_higher_is_better :: bool
  experiment_kwargs :: experiment_kwargs
  restore_path :: "string option option"

subsection \<open>Python primitives used by the builder\<close>

text \<open>\<open>int(x)\<close> on a float truncates towards zero.\<close>

definition py_int :: "rat \<Rightarrow> int" where
  "py_int x = (if 0 \<le> x then \<lfloor>x\<rfloor> else \<lceil>x\<rceil>)"

text \<open>The true division \<open>a / b\<close> raises \<open>ZeroDivisionError\<close> when \<open>b\<close> is zero.\<close>

definition py_truediv :: "rat \<Rightarrow> rat \<Rightarrow> error + rat" where
  "py_truediv a b = (if b = 0 then Inl ZeroDivisionError else Inr (a / b))"

text \<open>
  \<open>s.split(sep)\<close> for a one-character separator: the pieces between the separators,
  one more than there are separators. The recursive call never returns the empty list;
  the last case only makes the definition total.
\<close>

fun str_split :: "string \<Rightarrow> char \<Rightarrow> string list" where
  "str_split [] sep = [[]]"
| "str_split (c # cs) sep =
     (if c = sep then [] # str_split cs sep
      else (case str_split cs sep of
              w # ws \<Rightarrow> (c # w) # ws
            | [] \<Rightarrow> [[c]]))"

text \<open>
  \<open>list(collections.OrderedDict.fromkeys(ks))\<close>: the keys are inserted one after the
  other; inserting a key that is already there leaves it at its place.
\<close>

definition fromkeys :: "'a list \<Rightarrow> 'a list" where
  "fromkeys ks = foldl (\<lambda>d k. if k \<in> set d then d else d @ [k]) [] ks"

subsection \<open>The default configuration\<close>

definition get_default_config :: "'b \<Rightarrow> 'b jaxline_config" where
  "get_default_config b =
    (let training_batch_size = 48;
         train_devices = 8;
         eval_batch_size = 48;
         loss_kwargs = \<lparr>only_punish_first_end_of_sequence_token = False\<rparr>;
         posenc_config = \<lparr>posenc_type = '''', exclude_canonical = False,
           relative_positional_encodings = True, do_also_reverse = True,
           ppr_restart_probaility = 0.2, random_walk_steps = 3, top_k_eigenvectors = 10,
           excl_k_eigenvectors = 1, concatenate_eigenvalues = False, maglap_q = 0.25,
           maglap_q_absolute = True, maglap_symmetric_norm = False,
           maglap_transformer = False, maglap_use_signnet = True, maglap_use_gnn = False,
           maglap_norm_comps_sep = False, maglap_l2_norm = True, maglap_dropout_p = 0,
           maglap_sign_rotate = True\<rparr>;
         dataset_config = \<lparr>do_bucket_by_size = False, exclude_control_flow_edges = True,
           exclude_next_syntax_edges = True\<rparr>;
         gnn_config = \<lparr>gnn_type = ''gcn'', k_hop = 2, mlp_layers = 2, se = ''gnn'',
           tightening_factor = 1, use_edge_attr = True, bidirectional = False,
           residual = False, concat_gnn = True\<rparr>;
         attention_config = \<lparr>num_heads = 4, dense_widening_factor = 4, with_bias = False,
           dropout_p = 0.2, with_attn_dropout = True, re_im_separate_projection = False,
           with_posenc_residual = False\<rparr>;
         encoder_config = \<lparr>attribute_dropout = 0\<rparr>;
         model_config = \<lparr>model_type = ''sat'', num_layers = 4, d_model = 256,
           global_readout = ''mean'', activation = ''relu'', batch_norm = False,
           deg_sensitive_residual = True, attention_config = attention_config,
           encoder_config = encoder_config, loss_kwargs = loss_kwargs,
           posenc_config = posenc_config, with_pre_gnn = False, gnn_config = gnn_config\<rparr>;
         evaluation_config = \<lparr>eval_also_on_test = True, batch_size_eval = eval_batch_size,
           max_number_of_instances = - 1, unk_offset = 0, eos_offset = 0\<rparr>;
         config_warmup_epochs = 2;
         config_epochs = 32;
         steps_per_epoch = py_int (405000 / of_int training_batch_size / of_int train_devices);
         config_training_steps = config_epochs * steps_per_epoch
     in \<lparr>base = b,
         warmup_epochs = config_warmup_epochs,
         epochs = config_epochs,
         training_steps = config_training_steps,
         log_train_data_interval = 60,
         log_tensors_interval = 60,
         save_checkpoint_interval = 300,
         save_initial_train_checkpoint = False,
         checkpoint_dir = ''/tmp/checkpoint/digraph_transformer'',
         eval_specific_checkpoint_dir = '''',
         best_model_eval_metric = ''F1'',
         best_model_eval_metric_higher_is_better = True,
         experiment_kwargs = \<lparr>config = \<lparr>
           data_root = None,
           debug = False,
           dataset_name = ''ogbg-code2'',
           pmap_axis = ''i'',
           optimizer = \<lparr>name_opt = ''adamw'',
             optimizer_kwargs = \<lparr>b1 = 0.9, b2 = 0.999, weight_decay = 1 / 10 ^ 6\<rparr>,
             lr_schedule = \<lparr>warmup_steps = config_warmup_epochs,
               decay_steps = config_training_steps, init_value = 0,
               peak_value = 1 / 10 ^ 4 / 32, end_value = 0\<rparr>,
             use_agc = False,
             agc_kwargs = \<lparr>clipping = 0.1\<rparr>\<rparr>,
           model = model_config,
           dataset_config = dataset_config,
           training = \<lparr>batch_size = training_batch_size\<rparr>,
           evaluation = evaluation_config,
           dataset = None\<rparr>\<rparr>,
         restore_path = None\<rparr>)"

subsection \<open>The builder\<close>

text \<open>Nested assignments \<open>config.experiment_kwargs.config.f = v\<close> as record updates.\<close>

definition exp_config :: "'b jaxline_config \<Rightarrow> experiment_config" where
  "exp_config cfg = config (experiment_kwargs cfg)"

definition experiment_upd ::
  "(experiment_config \<Rightarrow> experiment_config) \<Rightarrow> 'b jaxline_config \<Rightarrow> 'b jaxline_config" where
  "experiment_upd f cfg =
     cfg\<lparr>experiment_kwargs := (experiment_kwargs cfg)\<lparr>config := f (exp_config cfg)\<rparr>\<rparr>"

definition lr_schedule_upd ::
  "(lr_schedule \<Rightarrow> lr_schedule) \<Rightarrow> 'b jaxline_config \<Rightarrow> 'b jaxline_config" where
  "lr_schedule_upd f =
     experiment_upd (\<lambda>e. e\<lparr>optimizer := (optimizer e)\<lparr>lr_schedule := f (lr_schedule (optimizer e))\<rparr>\<rparr>)"

text \<open>
  The overlay \<open>presets.apply_presets\<close> is not part of this module: it is a parameter of
  the builder, a function from the configuration in progress and the list of preset
  names to the configuration with the overrides applied.
\<close>

type_synonym 'b apply_presets = "'b jaxline_config \<Rightarrow> string list \<Rightarrow> 'b jaxline_config"

definition unique_presets :: "string \<Rightarrow> string list" where
  "unique_presets preset = fromkeys (str_split preset CHR '','')"

text \<open>
  The first part of \<open>get_config\<close>: the default configuration, the placeholder for
  \<open>restore_path\<close>, and the presets when the string is not empty.
\<close>

definition presets_applied :: "'b apply_presets \<Rightarrow> 'b \<Rightarrow> string \<Rightarrow> 'b jaxline_config" where
  "presets_applied apply_presets b preset =
    (let cfg = get_default_config b;
         cfg = cfg\<lparr>restore_path := Some None\<rparr>
     in if preset \<noteq> '''' then apply_presets cfg (unique_presets preset) else cfg)"

text \<open>
  \<open>effective_batch_size\<close> and \<open>steps_per_epoch\<close>, the two local values of the second
  part, from the configuration after the presets and the resolved dataset.
\<close>

definition effective_batch_size :: "'b jaxline_config \<Rightarrow> rat" where
  "effective_batch_size cfg =
    (let effective_batch_size = of_int (batch_size (training (exp_config cfg)))
     in if do_bucket_by_size (dataset_config (exp_config cfg))
        then effective_batch_size * 3.5 else effective_batch_size)"

definition steps_per_epoch :: "Dataset \<Rightarrow> rat \<Rightarrow> error + int" where
  "steps_per_epoch ds ebs =
    (case py_truediv (of_int (num_train_samples ds)) ebs of
       Inl e \<Rightarrow> Inl e
     | Inr q \<Rightarrow> (case py_truediv q 8 of
                   Inl e \<Rightarrow> Inl e
                 | Inr r \<Rightarrow> Inr (py_int r)))"

text \<open>
  The second part of \<open>get_config\<close>: the dataset is resolved, the step counts are
  recomputed and the learning-rate bounds are scaled by the training batch size.
\<close>

definition resolve :: "'b jaxline_config \<Rightarrow> error + 'b jaxline_config" where
  "resolve cfg0 =
    (case datasets_getitem (dataset_name (exp_config cfg0)) of
       Inl e \<Rightarrow> Inl e
     | Inr ds \<Rightarrow>
        (let cfg = experiment_upd (\<lambda>e. e\<lparr>dataset := Some ds\<rparr>) cfg0
         in case steps_per_epoch ds (effective_batch_size cfg) of
              Inl e \<Rightarrow> Inl e
            | Inr spe \<Rightarrow>
               (let cfg = cfg\<lparr>training_steps := epochs cfg * spe\<rparr>;
                    cfg = lr_schedule_upd (\<lambda>l. l\<lparr>warmup_steps := warmup_epochs cfg * spe\<rparr>) cfg;
                    cfg = lr_schedule_upd (\<lambda>l. l\<lparr>decay_steps := training_steps cfg\<rparr>) cfg;
                    bs = of_int (batch_size (training (exp_config cfg)));
                    cfg = lr_schedule_upd (\<lambda>l. l\<lparr>init_value := init_value l * bs\<rparr>) cfg;
                    cfg = lr_schedule_upd (\<lambda>l. l\<lparr>peak_value := peak_value l * bs\<rparr>) cfg;
                    cfg = lr_schedule_upd (\<lambda>l. l\<lparr>end_value := end_value l * bs\<rparr>) cfg
                in Inr cfg)))"

definition get_config :: "'b apply_presets \<Rightarrow> 'b \<Rightarrow> string \<Rightarrow> error + 'b jaxline_config" where
  "get_config apply_presets b preset = resolve (presets_applied apply_presets b preset)"

subsection \<open>Derived notions used in the statements\<close>

text \<open>The local name \<open>lr_schedule\<close> of the builder: the schedule inside the optimizer.\<close>

definition lr_schedule_of :: "'b jaxline_config \<Rightarrow> lr_schedule" where
  "lr_schedule_of cfg = lr_schedule (optimizer (exp_config cfg))"

text \<open>
  The closed form of what \<open>resolve\<close> returns for a configuration \<open>cfg\<close>, a dataset
  \<open>ds\<close> and a number \<open>spe\<close> of steps per epoch (lemma \<open>resolve_eq\<close> below).
\<close>

definition resolved :: "'b jaxline_config \<Rightarrow> Dataset \<Rightarrow> int \<Rightarrow> 'b jaxline_config" where
  "resolved cfg ds spe =
     cfg\<lparr>training_steps := epochs cfg * spe,
         experiment_kwargs := (experiment_kwargs cfg)\<lparr>config := (exp_config cfg)
           \<lparr>dataset := Some ds,
            optimizer := (optimizer (exp_config cfg))\<lparr>lr_schedule :=
              \<lparr>warmup_steps = warmup_epochs cfg * spe,
               decay_steps = epochs cfg * spe,
               init_value = init_value (lr_schedule_of cfg)
                 * of_int (batch_size (training (exp_config cfg))),
               peak_value = peak_value (lr_schedule_of cfg)
                 * of_int (batch_size (training (exp_config cfg))),
               end_value = end_value (lr_schedule_of cfg)
                 * of_int (batch_size (training (exp_config cfg)))\<rparr>\<rparr>\<rparr>\<rparr>\<rparr>"

text \<open>
  Deduplication as the specification words it: an entry is kept exactly when it has not
  occurred earlier, and the kept entries stay in their order. \<open>seen\<close> holds the entries
  met so far.
\<close>

fun first_occurrences :: "'a list \<Rightarrow> 'a list \<Rightarrow> 'a list" where
  "first_occurrences seen [] = []"
| "first_occurrences seen (x # xs) =
     (if x \<in> set seen then first_occurrences seen xs
      else x # first_occurrences (seen @ [x]) xs)"

text \<open>
  \<open>sep.join(ws)\<close>, the inverse of \<open>split\<close>; it is used only to state that \<open>str_split\<close>
  cuts a string at its separators and nowhere else.
\<close>

fun str_join :: "char \<Rightarrow> string list \<Rightarrow> string" where
  "str_join sep [] = []"
| "str_join sep [w] = w"
| "str_join sep (w # v # ws) = w @ sep # str_join sep (v # ws)"

text \<open>The assignment \<open>dataset_config.do_bucket_by_size = v\<close> on a configuration.\<close>

definition bucket_by_size :: "bool \<Rightarrow> 'b jaxline_config \<Rightarrow> 'b jaxline_config" where
  "bucket_by_size v =
     experiment_upd (\<lambda>e. e\<lparr>dataset_config := (dataset_config e)\<lparr>do_bucket_by_size := v\<rparr>\<rparr>)"

text \<open>
  Two sample overlays, for concrete runs of the builder: one sets the bucketing flag,
  the other sets the training batch size to zero. Both ignore the preset names.
\<close>

definition bucket_presets :: "'b apply_presets" where
  "bucket_presets cfg names = bucket_by_size True cfg"


section \<open>Auxiliary facts\<close>

subsection \<open>The registry\<close>

lemma datasets_Some_iff:
  "datasets k = Some d \<longleftrightarrow>
     k = ''ogbg-code2'' \<and> d = OGBG_CODE2 \<or>
     k = ''ogbg-code2-norev'' \<and> d = OGBG_CODE2_NOREV \<or>
     k = ''ogbg-code2-norev-df'' \<and> d = OGBG_CODE2_NOREV_DF \<or>
     k = ''sn-7to11-12-13to16'' \<and> d = SORTING_NETWORKS"
  by (auto simp: datasets_def datasets_items_def)

lemma datasets_getitem_Inr_iff: "datasets_getitem k = Inr d \<longleftrightarrow> datasets k = Some d"
  by (simp add: datasets_getitem_def split: option.splits)

lemma datasets_getitem_Inl_iff:
  "datasets_getitem k = Inl e \<longleftrightarrow> e = KeyError \<and> datasets k = None"
  by (auto simp add: datasets_getitem_def split: option.splits)

lemma datasets_default: "datasets ''ogbg-code2'' = Some OGBG_CODE2"
  by (simp add: datasets_def datasets_items_def)

subsection \<open>Steps per epoch\<close>


lemma steps_per_epoch_nonzero:
  "ebs \<noteq> 0 \<Longrightarrow> steps_per_epoch ds ebs = Inr (py_int (of_int (num_train_samples ds) / ebs / 8))"
  by (simp add: steps_per_epoch_def py_truediv_def)


lemma py_int_default: "py_int (407976 / 48 / 8) = 1062"
  by (simp add: py_int_def floor_eq_iff)

lemma steps_per_epoch_default: "steps_per_epoch OGBG_CODE2 48 = Inr 1062"
  using py_int_default by (simp add: steps_per_epoch_nonzero OGBG_CODE2_def)


subsection \<open>Nested updates\<close>

lemma exp_config_experiment_upd [simp]: "exp_config (experiment_upd f cfg) = f (exp_config cfg)"
  by (simp add: exp_config_def experiment_upd_def)

lemma exp_config_restore_path [simp]: "exp_config (cfg\<lparr>restore_path := x\<rparr>) = exp_config cfg"
  by (simp add: exp_config_def)

lemma effective_batch_size_dataset_upd:
  "effective_batch_size (experiment_upd (\<lambda>e. e\<lparr>dataset := x\<rparr>) cfg) = effective_batch_size cfg"
  by (simp add: effective_batch_size_def)

lemma effective_batch_size_restore_path [simp]:
  "effective_batch_size (cfg\<lparr>restore_path := x\<rparr>) = effective_batch_size cfg"
  by (simp add: effective_batch_size_def)

lemma effective_batch_size_bucket_by_size:
  "effective_batch_size (bucket_by_size v cfg) =
     (if v then of_int (batch_size (training (exp_config cfg))) * 3.5
      else of_int (batch_size (training (exp_config cfg))))"
  by (simp add: effective_batch_size_def bucket_by_size_def)

subsection \<open>The default configuration\<close>

lemma dataset_name_default [simp]:
  "dataset_name (exp_config (get_default_config b)) = ''ogbg-code2''"
  by (simp add: get_default_config_def Let_def exp_config_def)

lemma batch_size_default [simp]:
  "batch_size (training (exp_config (get_default_config b))) = 48"
  by (simp add: get_default_config_def Let_def exp_config_def)

lemma do_bucket_by_size_default [simp]:
  "do_bucket_by_size (dataset_config (exp_config (get_default_config b))) = False"
  by (simp add: get_default_config_def Let_def exp_config_def)

lemma epochs_default [simp]:
  "epochs (get_default_config b) = 32" "warmup_epochs (get_default_config b) = 2"
  by (simp_all add: get_default_config_def Let_def)

lemma lr_schedule_default:
  "lr_schedule_of (get_default_config b) =
     \<lparr>warmup_steps = 2, decay_steps = 33728, init_value = 0, peak_value = 1 / 10 ^ 4 / 32,
      end_value = 0\<rparr>"
  by (simp add: get_default_config_def Let_def exp_config_def lr_schedule_of_def py_int_def
      floor_eq_iff)

lemma effective_batch_size_default [simp]: "effective_batch_size (get_default_config b) = 48"
  by (simp add: effective_batch_size_def)

subsection \<open>The two parts of the builder\<close>

lemma presets_applied_empty:
  "presets_applied ap b '''' = (get_default_config b)\<lparr>restore_path := Some None\<rparr>"
  by (simp add: presets_applied_def Let_def)

lemma presets_applied_nonempty:
  "p \<noteq> '''' \<Longrightarrow> presets_applied ap b p =
     ap ((get_default_config b)\<lparr>restore_path := Some None\<rparr>) (unique_presets p)"
  by (simp add: presets_applied_def Let_def)

lemma resolve_eq:
  "resolve cfg =
     (case datasets (dataset_name (exp_config cfg)) of
        None \<Rightarrow> Inl KeyError
      | Some ds \<Rightarrow>
          (case steps_per_epoch ds (effective_batch_size cfg) of
             Inl e \<Rightarrow> Inl e
           | Inr spe \<Rightarrow> Inr (resolved cfg ds spe)))"
proof (cases "datasets (dataset_name (exp_config cfg))")
  case None
  then show ?thesis by (simp add: resolve_def datasets_getitem_def)
next
  case (Some ds)
  show ?thesis
  proof (cases "steps_per_epoch ds (effective_batch_size cfg)")
    case (Inl e)
    with Some show ?thesis
      by (simp add: resolve_def datasets_getitem_def effective_batch_size_dataset_upd)
  next
    case (Inr spe)
    with Some show ?thesis
      apply (simp add: resolve_def datasets_getitem_def effective_batch_size_dataset_upd
          Let_def resolved_def)
      apply (simp add: lr_schedule_upd_def experiment_upd_def exp_config_def lr_schedule_of_def)
      done
  qed
qed

lemma get_config_empty:
  "get_config ap b '''' =
     Inr (resolved ((get_default_config b)\<lparr>restore_path := Some None\<rparr>) OGBG_CODE2 1062)"
  by (simp add: get_config_def presets_applied_empty resolve_eq steps_per_epoch_default
      datasets_default)

text \<open>A successful run, taken apart.\<close>

lemma get_config_InrE:
  assumes "get_config ap b p = Inr c"
  obtains ds spe where
    "datasets (dataset_name (exp_config (presets_applied ap b p))) = Some ds"
    "steps_per_epoch ds (effective_batch_size (presets_applied ap b p)) = Inr spe"
    "c = resolved (presets_applied ap b p) ds spe"
  using assms unfolding get_config_def resolve_eq
  by (auto split: option.splits sum.splits)

subsection \<open>Fields of the closed form\<close>

lemma resolved_top_fields [simp]:
  "training_steps (resolved cfg ds spe) = epochs cfg * spe"
  "epochs (resolved cfg ds spe) = epochs cfg"
  "warmup_epochs (resolved cfg ds spe) = warmup_epochs cfg"
  "restore_path (resolved cfg ds spe) = restore_path cfg"
  "base (resolved cfg ds spe) = base cfg"
  by (simp_all add: resolved_def)

lemma resolved_exp_fields [simp]:
  "dataset (exp_config (resolved cfg ds spe)) = Some ds"
  "dataset_name (exp_config (resolved cfg ds spe)) = dataset_name (exp_config cfg)"
  "training (exp_config (resolved cfg ds spe)) = training (exp_config cfg)"
  "dataset_config (exp_config (resolved cfg ds spe)) = dataset_config (exp_config cfg)"
  "model (exp_config (resolved cfg ds spe)) = model (exp_config cfg)"
  "evaluation (exp_config (resolved cfg ds spe)) = evaluation (exp_config cfg)"
  by (simp_all add: resolved_def exp_config_def)

lemma resolved_lr_schedule [simp]:
  "lr_schedule_of (resolved cfg ds spe) =
     \<lparr>warmup_steps = warmup_epochs cfg * spe,
      decay_steps = epochs cfg * spe,
      init_value = init_value (lr_schedule_of cfg) * of_int (batch_size (training (exp_config cfg))),
      peak_value = peak_value (lr_schedule_of cfg) * of_int (batch_size (training (exp_config cfg))),
      end_value = end_value (lr_schedule_of cfg) * of_int (batch_size (training (exp_config cfg)))\<rparr>"
  by (simp add: resolved_def exp_config_def lr_schedule_of_def)

lemma effective_batch_size_resolved [simp]:
  "effective_batch_size (resolved cfg ds spe) = effective_batch_size cfg"
  by (simp add: effective_batch_size_def)

subsection \<open>Splitting\<close>

lemma str_split_not_Nil: "str_split s sep \<noteq> []"
  by (induction s) (auto split: list.splits)

lemma str_split_no_sep: "w \<in> set (str_split s sep) \<Longrightarrow> sep \<notin> set w"
  by (induction s arbitrary: w) (auto split: list.splits if_splits)

lemma str_join_str_split: "str_join sep (str_split s sep) = s"
proof (induction s)
  case Nil
  show ?case by simp
next
  case (Cons c cs)
  obtain w ws where sp: "str_split cs sep = w # ws"
    using str_split_not_Nil [of cs sep] by (cases "str_split cs sep") auto
  with Cons show ?case by (cases ws) auto
qed

subsection \<open>Deduplication\<close>

lemma foldl_first_occurrences:
  "foldl (\<lambda>d k. if k \<in> set d then d else d @ [k]) seen ks = seen @ first_occurrences seen ks"
  by (induction ks arbitrary: seen) simp_all

lemma fromkeys_first_occurrences: "fromkeys ks = first_occurrences [] ks"
  by (simp add: fromkeys_def foldl_first_occurrences)

lemma distinct_first_occurrences:
  "distinct seen \<Longrightarrow> distinct (seen @ first_occurrences seen ks)"
proof (induction ks arbitrary: seen)
  case Nil
  then show ?case by simp
next
  case (Cons a ks)
  show ?case
  proof (cases "a \<in> set seen")
    case True
    with Cons show ?thesis by simp
  next
    case False
    with Cons.prems have "distinct (seen @ [a])" by simp
    from Cons.IH [OF this] False show ?thesis by simp
  qed
qed

lemma set_first_occurrences: "set seen \<union> set (first_occurrences seen ks) = set seen \<union> set ks"
proof (induction ks arbitrary: seen)
  case Nil
  show ?case by simp
next
  case (Cons a ks)
  show ?case
  proof (cases "a \<in> set seen")
    case True
    with Cons.IH [of seen] show ?thesis by auto
  next
    case False
    with Cons.IH [of "seen @ [a]"] show ?thesis by auto
  qed
qed

lemma distinct_unique_presets: "distinct (unique_presets p)"
  using distinct_first_occurrences [of "[]" "str_split p CHR '',''"]
  by (simp add: unique_presets_def fromkeys_first_occurrences)

lemma set_unique_presets: "set (unique_presets p) = set (str_split p CHR '','')"
  using set_first_occurrences [of "[]" "str_split p CHR '',''"]
  by (simp add: unique_presets_def fromkeys_first_occurrences)

section \<open>The dataset registry\<close>

text \<open>
  The statement "for every key of the registry, looking the key up returns a record whose
  \<open>name\<close> equals the key" fails at the key of the sorting-network dataset: the record
  stored under \<open>sn-7to11-12-13to16\<close> is named \<open>sn\<close>.
\<close>

theorem registry_name_counterexample:
  "datasets_getitem ''sn-7to11-12-13to16'' = Inr SORTING_NETWORKS \<and>
   name SORTING_NETWORKS = ''sn'' \<and>
   name SORTING_NETWORKS \<noteq> ''sn-7to11-12-13to16''"
  by (simp add: datasets_getitem_def datasets_def datasets_items_def SORTING_NETWORKS_def)

text \<open>
  Claim C3, amended: for every key of the registry other than \<open>sn-7to11-12-13to16\<close>,
  looking the key up returns a record whose \<open>name\<close> equals the key; the key
  \<open>sn-7to11-12-13to16\<close> returns the record named \<open>sn\<close>.
\<close>

theorem registry_name:
  "datasets_getitem k = Inr d \<Longrightarrow>
     (name d = k) = (k \<noteq> ''sn-7to11-12-13to16'') \<and>
     (k = ''sn-7to11-12-13to16'' \<longrightarrow> name d = ''sn'')"
  by (auto simp: datasets_getitem_Inr_iff datasets_Some_iff OGBG_CODE2_def
      OGBG_CODE2_NOREV_def OGBG_CODE2_NOREV_DF_def SORTING_NETWORKS_def)

theorem registry_name_witness:
  "datasets_getitem ''ogbg-code2-norev'' = Inr OGBG_CODE2_NOREV \<and>
   name OGBG_CODE2_NOREV = ''ogbg-code2-norev''"
proof -
  have h: "datasets_getitem ''ogbg-code2-norev'' = Inr OGBG_CODE2_NOREV"
    by (simp add: datasets_getitem_def datasets_def datasets_items_def)
  from registry_name [OF h] h show ?thesis by simp
qed

text \<open>
  Claim C4: the registry has four keys, and for every record in it the two optional
  edge-type counts \<open>edge_df_types\<close> and \<open>edge_ast_types\<close> are both present or both
  absent; they are both present exactly for the data-flow dataset
  \<open>ogbg-code2-norev-df\<close> and both absent for the three other datasets.
\<close>

theorem edge_type_counts:
  "dom datasets = {''ogbg-code2'', ''ogbg-code2-norev'', ''ogbg-code2-norev-df'',
     ''sn-7to11-12-13to16''} \<and>
   (datasets_getitem k = Inr d \<longrightarrow>
     (edge_df_types d = None) = (edge_ast_types d = None) \<and>
     (edge_df_types d \<noteq> None \<and> edge_ast_types d \<noteq> None) = (k = ''ogbg-code2-norev-df'') \<and>
     (edge_df_types d = None \<and> edge_ast_types d = None) = (k \<noteq> ''ogbg-code2-norev-df'') \<and>
     (k = ''ogbg-code2-norev-df'') = (name d = ''ogbg-code2-norev-df''))"
proof -
  have "dom datasets = {''ogbg-code2'', ''ogbg-code2-norev'', ''ogbg-code2-norev-df'',
     ''sn-7to11-12-13to16''}"
    by (simp add: datasets_def datasets_items_def dom_map_of_conv_image_fst)
  moreover have "datasets_getitem k = Inr d \<longrightarrow>
     (edge_df_types d = None) = (edge_ast_types d = None) \<and>
     (edge_df_types d \<noteq> None \<and> edge_ast_types d \<noteq> None) = (k = ''ogbg-code2-norev-df'') \<and>
     (edge_df_types d = None \<and> edge_ast_types d = None) = (k \<noteq> ''ogbg-code2-norev-df'') \<and>
     (k = ''ogbg-code2-norev-df'') = (name d = ''ogbg-code2-norev-df'')"
    by (auto simp: datasets_getitem_Inr_iff datasets_Some_iff OGBG_CODE2_def
      OGBG_CODE2_NOREV_def OGBG_CODE2_NOREV_DF_def SORTING_NETWORKS_def)
  ultimately show ?thesis by blast
qed

theorem edge_type_counts_witness:
  "datasets_getitem ''ogbg-code2-norev-df'' = Inr OGBG_CODE2_NOREV_DF \<and>
   edge_df_types OGBG_CODE2_NOREV_DF = Some 12 \<and>
   edge_ast_types OGBG_CODE2_NOREV_DF = Some 51 \<and>
   datasets_getitem ''sn-7to11-12-13to16'' = Inr SORTING_NETWORKS \<and>
   edge_df_types SORTING_NETWORKS = None \<and> edge_ast_types SORTING_NETWORKS = None"
proof -
  have h: "datasets_getitem ''ogbg-code2-norev-df'' = Inr OGBG_CODE2_NOREV_DF"
    and h': "datasets_getitem ''sn-7to11-12-13to16'' = Inr SORTING_NETWORKS"
    by (simp_all add: datasets_getitem_def datasets_def datasets_items_def)
  have e: "edge_df_types OGBG_CODE2_NOREV_DF = Some 12"
    "edge_ast_types OGBG_CODE2_NOREV_DF = Some 51"
    by (simp_all add: OGBG_CODE2_NOREV_DF_def)
  from edge_type_counts [of "''sn-7to11-12-13to16''" SORTING_NETWORKS] h'
  have "edge_df_types SORTING_NETWORKS = None \<and> edge_ast_types SORTING_NETWORKS = None"
    by simp
  with h h' e show ?thesis by simp
qed

section \<open>The builder without presets\<close>

text \<open>
  Claim C1: called with the empty preset string, the builder returns a configuration for
  the dataset \<open>ogbg-code2\<close> (407976 training samples) with training batch size 48, the
  bucketing flag unset and 32 epochs; its \<open>training_steps\<close> is \<open>epochs\<close> times
  \<open>floor (407976 / 48 / 8)\<close>, the number of steps per epoch computed from the number of
  training samples, the effective batch size and the divisor 8.
\<close>

theorem default_training_steps:
  "\<exists>c ds. get_config ap b '''' = Inr c \<and>
     dataset_name (exp_config c) = ''ogbg-code2'' \<and>
     dataset (exp_config c) = Some ds \<and>
     num_train_samples ds = 407976 \<and>
     batch_size (training (exp_config c)) = 48 \<and>
     \<not> do_bucket_by_size (dataset_config (exp_config c)) \<and>
     effective_batch_size c = 48 \<and>
     epochs c = 32 \<and>
     steps_per_epoch ds (effective_batch_size c) = Inr \<lfloor>407976 / 48 / 8 :: rat\<rfloor> \<and>
     training_steps c = epochs c * \<lfloor>407976 / 48 / 8 :: rat\<rfloor> \<and>
     training_steps c = 33984"
proof -
  have fl: "\<lfloor>407976 / 48 / 8 :: rat\<rfloor> = 1062" by (simp add: floor_eq_iff)
  show ?thesis
    unfolding get_config_empty fl
    by (simp add: steps_per_epoch_default) (simp add: OGBG_CODE2_def)
qed

text \<open>
  Claim C9: called with the empty preset string, the builder looks up the default
  \<open>dataset_name\<close>, \<open>ogbg-code2\<close>, which is a key of the registry: the lookup does not
  raise and the builder returns a configuration.
\<close>

theorem default_dataset_registered:
  "dataset_name (exp_config (presets_applied ap b '''')) = ''ogbg-code2'' \<and>
   ''ogbg-code2'' \<in> dom datasets \<and>
   datasets_getitem (dataset_name (exp_config (presets_applied ap b ''''))) = Inr OGBG_CODE2 \<and>
   (\<exists>c. get_config ap b '''' = Inr c)"
  by (simp add: presets_applied_empty datasets_getitem_def datasets_default domIff
      get_config_empty)

text \<open>
  Claim C10: called with the empty preset string, the builder returns the default
  configuration in which only \<open>restore_path\<close>, \<open>training_steps\<close>, the new key
  \<open>dataset\<close> and the learning-rate schedule (whose fields are \<open>warmup_steps\<close>,
  \<open>decay_steps\<close>, \<open>init_value\<close>, \<open>peak_value\<close> and \<open>end_value\<close>) may differ; in
  particular the framework's part, \<open>epochs\<close>, \<open>warmup_epochs\<close>, \<open>dataset_name\<close>, the
  batch sizes, the model, the dataset configuration and the evaluation configuration are
  those of the default configuration.
\<close>

theorem default_frame:
  "\<exists>c. get_config ap b '''' = Inr c \<and>
     c = lr_schedule_upd (\<lambda>_. lr_schedule_of c)
           (experiment_upd (\<lambda>e. e\<lparr>dataset := dataset (exp_config c)\<rparr>)
             ((get_default_config b)\<lparr>training_steps := training_steps c,
                                     restore_path := restore_path c\<rparr>)) \<and>
     base c = b \<and>
     epochs c = epochs (get_default_config b) \<and>
     warmup_epochs c = warmup_epochs (get_default_config b) \<and>
     dataset_name (exp_config c) = dataset_name (exp_config (get_default_config b)) \<and>
     training (exp_config c) = training (exp_config (get_default_config b)) \<and>
     model (exp_config c) = model (exp_config (get_default_config b)) \<and>
     dataset_config (exp_config c) = dataset_config (exp_config (get_default_config b)) \<and>
     evaluation (exp_config c) = evaluation (exp_config (get_default_config b))"
proof -
  let ?c = "resolved ((get_default_config b)\<lparr>restore_path := Some None\<rparr>) OGBG_CODE2 1062"
  have frame: "?c = lr_schedule_upd (\<lambda>_. lr_schedule_of ?c)
           (experiment_upd (\<lambda>e. e\<lparr>dataset := dataset (exp_config ?c)\<rparr>)
             ((get_default_config b)\<lparr>training_steps := training_steps ?c,
                                     restore_path := restore_path ?c\<rparr>))"
    apply (simp only: resolved_lr_schedule resolved_exp_fields resolved_top_fields)
    apply (simp add: resolved_def lr_schedule_upd_def experiment_upd_def exp_config_def)
    done
  have b: "base (get_default_config b) = b"
    by (simp add: get_default_config_def Let_def)
  have rest: "base ?c = b \<and>
     epochs ?c = epochs (get_default_config b) \<and>
     warmup_epochs ?c = warmup_epochs (get_default_config b) \<and>
     dataset_name (exp_config ?c) = dataset_name (exp_config (get_default_config b)) \<and>
     training (exp_config ?c) = training (exp_config (get_default_config b)) \<and>
     model (exp_config ?c) = model (exp_config (get_default_config b)) \<and>
     dataset_config (exp_config ?c) = dataset_config (exp_config (get_default_config b)) \<and>
     evaluation (exp_config ?c) = evaluation (exp_config (get_default_config b))"
    by (simp add: b)
  show ?thesis
    unfolding get_config_empty
    apply (rule exI [of _ ?c])
    apply (rule conjI, rule refl)
    apply (rule conjI, rule frame)
    apply (rule rest)
    done
qed

section \<open>The builder with presets\<close>




text \<open>
  Claim C5: in every successful run the builder leaves the training batch size \<open>B\<close> as
  the presets set it and multiplies each of \<open>init_value\<close>, \<open>peak_value\<close> and
  \<open>end_value\<close> of the schedule by \<open>B\<close>, whatever the bucketing flag is; with the default
  peak value \<open>1e-4 / 32\<close> the returned peak value is \<open>(1e-4 / 32) * B\<close>.
\<close>

theorem lr_schedule_scaled:
  assumes "get_config ap b p = Inr c"
  shows "batch_size (training (exp_config c)) =
           batch_size (training (exp_config (presets_applied ap b p))) \<and>
     init_value (lr_schedule_of c) =
       init_value (lr_schedule_of (presets_applied ap b p))
         * of_int (batch_size (training (exp_config c))) \<and>
     peak_value (lr_schedule_of c) =
       peak_value (lr_schedule_of (presets_applied ap b p))
         * of_int (batch_size (training (exp_config c))) \<and>
     end_value (lr_schedule_of c) =
       end_value (lr_schedule_of (presets_applied ap b p))
         * of_int (batch_size (training (exp_config c))) \<and>
     (peak_value (lr_schedule_of (presets_applied ap b p)) = 1 / 10 ^ 4 / 32 \<longrightarrow>
        peak_value (lr_schedule_of c) = 1 / 10 ^ 4 / 32 * of_int (batch_size (training (exp_config c))))"
proof -
  from assms obtain ds spe where c: "c = resolved (presets_applied ap b p) ds spe"
    by (rule get_config_InrE)
  show ?thesis unfolding c by simp
qed

theorem lr_schedule_scaled_witness:
  "\<exists>c. get_config bucket_presets () ''bbs'' = Inr c \<and>
     batch_size (training (exp_config c)) = 48 \<and>
     effective_batch_size c = 168 \<and>
     init_value (lr_schedule_of c) = 0 \<and>
     peak_value (lr_schedule_of c) = 1 / 10 ^ 4 / 32 * 48 \<and>
     end_value (lr_schedule_of c) = 0"
proof -
  have pa: "presets_applied bucket_presets () ''bbs'' =
      bucket_by_size True ((get_default_config ())\<lparr>restore_path := Some None\<rparr>)"
    by (simp add: presets_applied_nonempty bucket_presets_def)
  have e: "effective_batch_size (presets_applied bucket_presets () ''bbs'') = 168"
    by (simp add: pa effective_batch_size_bucket_by_size)
  have d: "dataset_name (exp_config (presets_applied bucket_presets () ''bbs'')) = ''ogbg-code2''"
    "batch_size (training (exp_config (presets_applied bucket_presets () ''bbs''))) = 48"
    by (simp_all add: pa bucket_by_size_def)
  have l: "lr_schedule_of (presets_applied bucket_presets () ''bbs'') =
      lr_schedule_of (get_default_config ())"
    by (simp add: pa bucket_by_size_def lr_schedule_of_def)
  have s: "steps_per_epoch OGBG_CODE2 168 = Inr 303"
    by (simp add: steps_per_epoch_nonzero OGBG_CODE2_def py_int_def floor_eq_iff)
  have g: "get_config bucket_presets () ''bbs'' =
      Inr (resolved (presets_applied bucket_presets () ''bbs'') OGBG_CODE2 303)"
    by (simp add: get_config_def resolve_eq d datasets_default e s)
  from lr_schedule_scaled [OF g] show ?thesis
    unfolding g by (simp add: d e l lr_schedule_default)
qed

text \<open>
  Claim C7: the list of preset names that the builder hands to the overlay is the list of
  the comma-separated pieces of the preset string, deduplicated by first occurrence with
  the order kept; it has no duplicates and the same elements as the pieces. For the
  string \<open>a,a,b\<close> the list is \<open>[a, b]\<close>.
\<close>

theorem presets_deduplicated:
  "unique_presets p = first_occurrences [] (str_split p CHR '','') \<and>
   distinct (unique_presets p) \<and>
   set (unique_presets p) = set (str_split p CHR '','') \<and>
   (p \<noteq> '''' \<longrightarrow>
      get_config ap b p =
        resolve (ap ((get_default_config b)\<lparr>restore_path := Some None\<rparr>)
                   (first_occurrences [] (str_split p CHR '','')))) \<and>
   str_split ''a,a,b'' CHR '','' = [''a'', ''a'', ''b''] \<and>
   unique_presets ''a,a,b'' = [''a'', ''b'']"
proof -
  have u: "unique_presets p = first_occurrences [] (str_split p CHR '','')"
    by (simp add: unique_presets_def fromkeys_first_occurrences)
  have "p \<noteq> '''' \<longrightarrow>
      get_config ap b p =
        resolve (ap ((get_default_config b)\<lparr>restore_path := Some None\<rparr>)
                   (first_occurrences [] (str_split p CHR '','')))"
    by (simp add: get_config_def presets_applied_nonempty u)
  moreover have "str_split ''a,a,b'' CHR '','' = [''a'', ''a'', ''b'']" by simp
  moreover have "unique_presets ''a,a,b'' = [''a'', ''b'']"
    by (simp add: unique_presets_def fromkeys_def)
  ultimately show ?thesis
    using u distinct_unique_presets [of p] set_unique_presets [of p] by simp
qed

theorem presets_deduplicated_witness:
  "get_config bucket_presets () ''a,a,b'' =
     resolve (bucket_presets ((get_default_config ())\<lparr>restore_path := Some None\<rparr>) [''a'', ''b''])"
proof -
  have "first_occurrences [] (str_split ''a,a,b'' CHR '','') = [''a'', ''b'']" by simp
  with presets_deduplicated [of "''a,a,b''" bucket_presets "()"] show ?thesis by simp
qed

text \<open>
  Claim C8: in every successful run, with \<open>steps_per_epoch\<close> computed from the
  configuration left by the presets and the resolved dataset, the returned configuration
  has \<open>training_steps = epochs * steps_per_epoch\<close>,
  \<open>warmup_steps = warmup_epochs * steps_per_epoch\<close> and \<open>decay_steps = training_steps\<close>.
\<close>

theorem derived_step_counts:
  assumes "get_config ap b p = Inr c"
  shows "\<exists>ds spe.
     datasets_getitem (dataset_name (exp_config (presets_applied ap b p))) = Inr ds \<and>
     steps_per_epoch ds (effective_batch_size (presets_applied ap b p)) = Inr spe \<and>
     dataset (exp_config c) = Some ds \<and>
     steps_per_epoch ds (effective_batch_size c) = Inr spe \<and>
     epochs c = epochs (presets_applied ap b p) \<and>
     warmup_epochs c = warmup_epochs (presets_applied ap b p) \<and>
     training_steps c = epochs c * spe \<and>
     warmup_steps (lr_schedule_of c) = warmup_epochs c * spe \<and>
     decay_steps (lr_schedule_of c) = training_steps c"
proof -
  from assms obtain ds spe where
    ds: "datasets (dataset_name (exp_config (presets_applied ap b p))) = Some ds" and
    spe: "steps_per_epoch ds (effective_batch_size (presets_applied ap b p)) = Inr spe" and
    c: "c = resolved (presets_applied ap b p) ds spe"
    by (rule get_config_InrE)
  from ds have "datasets_getitem (dataset_name (exp_config (presets_applied ap b p))) = Inr ds"
    by (simp add: datasets_getitem_Inr_iff)
  with spe show ?thesis unfolding c by simp
qed

theorem derived_step_counts_witness:
  "\<exists>c. get_config bucket_presets () ''bbs'' = Inr c \<and>
     training_steps c = 32 * 303 \<and>
     warmup_steps (lr_schedule_of c) = 2 * 303 \<and>
     decay_steps (lr_schedule_of c) = 32 * 303"
proof -
  have pa: "presets_applied bucket_presets () ''bbs'' =
      bucket_by_size True ((get_default_config ())\<lparr>restore_path := Some None\<rparr>)"
    by (simp add: presets_applied_nonempty bucket_presets_def)
  have e: "effective_batch_size (presets_applied bucket_presets () ''bbs'') = 168"
    by (simp add: pa effective_batch_size_bucket_by_size)
  have d: "dataset_name (exp_config (presets_applied bucket_presets () ''bbs'')) = ''ogbg-code2''"
    by (simp add: pa bucket_by_size_def)
  have s: "steps_per_epoch OGBG_CODE2 168 = Inr 303"
    by (simp add: steps_per_epoch_nonzero OGBG_CODE2_def py_int_def floor_eq_iff)
  have ep: "epochs (presets_applied bucket_presets () ''bbs'') = 32"
    "warmup_epochs (presets_applied bucket_presets () ''bbs'') = 2"
    by (simp_all add: pa bucket_by_size_def experiment_upd_def)
  have g: "get_config bucket_presets () ''bbs'' =
      Inr (resolved (presets_applied bucket_presets () ''bbs'') OGBG_CODE2 303)"
    by (simp add: get_config_def resolve_eq d datasets_default e s)
  from derived_step_counts [OF g] show ?thesis
    unfolding g by (simp add: d datasets_getitem_def datasets_default e s ep)
qed

section \<open>The bucketing flag\<close>





end
